theory Spec2Isabelle
  imports Main "HOL-Library.Word"
begin

unbundle bit_operations_syntax

section \<open>Data model\<close>

type_synonym u8 = "8 word"
type_synonym u16 = "16 word"
type_synonym u32 = "32 word"

text \<open>
  One completed bus cycle, as requested by the caller of \<open>writeByte\<close> or
  \<open>readByte\<close>: the address argument and the byte written or sampled.  The list of
  cycles is an observation only; no function of the model reads it.
\<close>

datatype access = Write u16 u8 | Read u16 u8

text \<open>
  What the firmware hands to the UART.  The private helpers of \<open>SRAMStrategy\<close>
  (\<open>sendTestStart\<close>, \<open>sendTestResult\<close>, \<open>sendTestError\<close>, \<open>sendProgress\<close>) are
  recorded with their arguments (for \<open>sendProgress\<close> the percentage it computes); the
  text they format from them is not modelled.  Direct calls of \<open>UARTHandler\<close> carry
  their message.
\<close>

datatype report =
    TestStart u8 bool
  | TestResult u8 bool
  | TestError u8 u16 u8 u8
  | Progress string u8
  | AddressLineHint u8
  | DataLineHint u8
  | SendInfo string
  | SendOK string
  | SendError string

text \<open>
  The state the SRAM strategy works on: the members of \<open>SRAMStrategy\<close>
  (\<open>uart\<close> is \<open>True\<close> when the handler pointer is not null), the ATmega2560 port
  registers it touches, and the surroundings: the cells of the device in the socket,
  the cell its address decoder selects for each level of the sixteen address lines (a
  stuck or shorted line makes two addresses share a cell), the level an undriven data
  line reads as, the lines sent over the UART, the state of
  the library's pseudo-random generator, and the bus cycles performed so far.
\<close>

record 'g tester =
  sramSize :: u16
  maxAddress :: u16
  addressBits :: u8
  uart :: bool
  DDRA :: u8
  DDRC :: u8
  DDRG :: u8
  DDRL :: u8
  PORTA :: u8
  PORTC :: u8
  PORTG :: u8
  PORTL :: u8
  cells :: "u16 \<Rightarrow> u8"
  decode :: "u16 \<Rightarrow> u16"
  floating :: u8
  serial :: "report list"
  rng :: 'g
  bus_log :: "access list"

section \<open>The device in the socket\<close>

text \<open>
  The address lines A0-A15 carry PORTA (low byte) and PORTC (high byte).  /CS is bit 0,
  /OE bit 2 and /WE bit 3 of PORTG, all active low.
\<close>

definition address_lines :: "'g tester \<Rightarrow> u16" where
  "address_lines s = word_cat (PORTC s) (PORTA s)"

definition selected_cell :: "'g tester \<Rightarrow> u16" where
  "selected_cell s = decode s (address_lines s)"

definition sram_drives :: "'g tester \<Rightarrow> bool" where
  "sram_drives s \<longleftrightarrow> \<not> bit (PORTG s) 0 \<and> \<not> bit (PORTG s) 2 \<and> bit (PORTG s) 3"

text \<open>
  The level of the data lines D0-D7: a line whose direction bit is set carries the
  PORTL bit; any other line carries what the device drives when it is selected for a
  read, and the floating level otherwise.
\<close>

definition data_lines :: "'g tester \<Rightarrow> u8" where
  "data_lines s =
     (PORTL s AND DDRL s) OR
     ((if sram_drives s then cells s (selected_cell s) else floating s) AND NOT (DDRL s))"

text \<open>
  A static RAM stores the level of the data lines in the addressed cell for as long as
  /CS and /WE are both low.  Every register write of the firmware is followed by this
  reaction of the device.
\<close>

definition sram_latch :: "'g tester \<Rightarrow> 'g tester" where
  "sram_latch s =
     (if \<not> bit (PORTG s) 0 \<and> \<not> bit (PORTG s) 3
      then s\<lparr>cells := (cells s)(selected_cell s := data_lines s)\<rparr>
      else s)"

definition PINL :: "'g tester \<Rightarrow> u8" where
  "PINL s = data_lines s"

definition delayMicroseconds :: "nat \<Rightarrow> 'g tester \<Rightarrow> 'g tester" where
  "delayMicroseconds us s = s"

text \<open>A statement sequence is a list of state transformers, run from left to right.\<close>

definition run :: "('s \<Rightarrow> 's) list \<Rightarrow> 's \<Rightarrow> 's" where
  "run steps s = foldl (\<lambda>t f. f t) s steps"

text \<open>The states a sequence passes through, one after each statement.\<close>

fun states_of :: "('s \<Rightarrow> 's) list \<Rightarrow> 's \<Rightarrow> 's list" where
  "states_of [] s = []"
| "states_of (f # fs) s = f s # states_of fs (f s)"

section \<open>SRAMStrategy: configuration and bus cycles\<close>

function count_bits :: "u16 \<Rightarrow> u8 \<Rightarrow> u8" where
  "count_bits temp bits = (if temp > 0 then count_bits (drop_bit 1 temp) (bits + 1) else bits)"
  by pat_completeness auto
termination
proof (relation "measure (\<lambda>(temp, bits). unat temp)")
  show "wf (measure (\<lambda>(temp :: u16, bits :: u8). unat temp))"
    by simp
next
  fix temp :: u16 and bits :: u8
  assume "0 < temp"
  then have "unat temp \<noteq> 0"
    by (simp add: unat_eq_0 word_greater_zero_iff)
  then have "unat temp div 2 < unat temp"
    by simp
  then show "((drop_bit 1 temp, bits + 1), (temp, bits)) \<in> measure (\<lambda>(temp, bits). unat temp)"
    by (simp add: drop_bit_eq_div unat_div)
qed

declare count_bits.simps [simp del]

definition setSize :: "u16 \<Rightarrow> 'g tester \<Rightarrow> 'g tester" where
  "setSize sizeInBytes s =
     s\<lparr>sramSize := sizeInBytes,
       maxAddress := sizeInBytes - 1,
       addressBits := count_bits (sizeInBytes - 1) 0\<rparr>"

definition setUARTHandler :: "bool \<Rightarrow> 'g tester \<Rightarrow> 'g tester" where
  "setUARTHandler handler s = s\<lparr>uart := handler\<rparr>"

definition configurePins_steps :: "('g tester \<Rightarrow> 'g tester) list" where
  "configurePins_steps =
     [\<lambda>s. sram_latch (s\<lparr>DDRA := 0xFF\<rparr>),
      \<lambda>s. sram_latch (s\<lparr>DDRC := 0xFF\<rparr>),
      \<lambda>s. sram_latch (s\<lparr>DDRL := 0x00\<rparr>),
      \<lambda>s. sram_latch (s\<lparr>PORTL := 0x00\<rparr>),
      \<lambda>s. sram_latch (s\<lparr>DDRG := DDRG s OR (push_bit 0 1 OR push_bit 2 1 OR push_bit 3 1)\<rparr>),
      \<lambda>s. sram_latch (s\<lparr>PORTG := PORTG s OR (push_bit 0 1 OR push_bit 2 1 OR push_bit 3 1)\<rparr>)]"

definition configurePins :: "'g tester \<Rightarrow> 'g tester" where
  "configurePins = run configurePins_steps"

definition reset_steps :: "('g tester \<Rightarrow> 'g tester) list" where
  "reset_steps =
     [\<lambda>s. sram_latch (s\<lparr>PORTG := PORTG s OR (push_bit 0 1 OR push_bit 2 1 OR push_bit 3 1)\<rparr>),
      \<lambda>s. sram_latch (s\<lparr>DDRL := 0x00\<rparr>)]"

definition reset :: "'g tester \<Rightarrow> 'g tester" where
  "reset = run reset_steps"

definition highByte_of :: "'g tester \<Rightarrow> u16 \<Rightarrow> u8" where
  "highByte_of s addr =
     (let highByte = ucast (drop_bit 8 addr AND 0xFF) :: u8
      in if sramSize s \<le> 8192 then highByte OR push_bit 5 1 else highByte)"

definition setAddress_steps :: "u16 \<Rightarrow> ('g tester \<Rightarrow> 'g tester) list" where
  "setAddress_steps addr =
     [\<lambda>s. sram_latch (s\<lparr>PORTA := ucast (addr AND 0xFF)\<rparr>),
      \<lambda>s. sram_latch (s\<lparr>PORTC := highByte_of s addr\<rparr>)]"

definition setAddress :: "u16 \<Rightarrow> 'g tester \<Rightarrow> 'g tester" where
  "setAddress addr = run (setAddress_steps addr)"

definition writeByte_steps :: "u16 \<Rightarrow> u8 \<Rightarrow> ('g tester \<Rightarrow> 'g tester) list" where
  "writeByte_steps addr data =
     [setAddress addr,
      \<lambda>s. sram_latch (s\<lparr>DDRL := 0xFF\<rparr>),
      \<lambda>s. sram_latch (s\<lparr>PORTL := data\<rparr>),
      \<lambda>s. sram_latch (s\<lparr>PORTG := PORTG s AND NOT (push_bit 0 1)\<rparr>),
      \<lambda>s. sram_latch (s\<lparr>PORTG := PORTG s AND NOT (push_bit 3 1)\<rparr>),
      delayMicroseconds 1,
      \<lambda>s. sram_latch (s\<lparr>PORTG := PORTG s OR push_bit 3 1\<rparr>),
      \<lambda>s. sram_latch (s\<lparr>PORTG := PORTG s OR push_bit 0 1\<rparr>),
      \<lambda>s. sram_latch (s\<lparr>DDRL := 0x00\<rparr>)]"

definition writeByte :: "u16 \<Rightarrow> u8 \<Rightarrow> 'g tester \<Rightarrow> 'g tester" where
  "writeByte addr data s =
     (let s' = run (writeByte_steps addr data) s
      in s'\<lparr>bus_log := bus_log s' @ [Write addr data]\<rparr>)"

definition readByte_select :: "u16 \<Rightarrow> ('g tester \<Rightarrow> 'g tester) list" where
  "readByte_select addr =
     [setAddress addr,
      \<lambda>s. sram_latch (s\<lparr>DDRL := 0x00\<rparr>),
      \<lambda>s. sram_latch (s\<lparr>PORTG := PORTG s AND NOT (push_bit 0 1)\<rparr>),
      \<lambda>s. sram_latch (s\<lparr>PORTG := PORTG s AND NOT (push_bit 2 1)\<rparr>),
      delayMicroseconds 1]"

definition readByte_release :: "('g tester \<Rightarrow> 'g tester) list" where
  "readByte_release =
     [\<lambda>s. sram_latch (s\<lparr>PORTG := PORTG s OR push_bit 2 1\<rparr>),
      \<lambda>s. sram_latch (s\<lparr>PORTG := PORTG s OR push_bit 0 1\<rparr>)]"

definition readByte :: "u16 \<Rightarrow> 'g tester \<Rightarrow> u8 \<times> 'g tester" where
  "readByte addr s =
     (let s1 = run (readByte_select addr) s;
          data = PINL s1;
          s2 = run readByte_release s1
      in (data, s2\<lparr>bus_log := bus_log s2 @ [Read addr data]\<rparr>))"

text \<open>
  \<open>shouldTestAddress\<close>.  On the ATmega2560 \<open>int\<close> has 16 bits, so \<open>maxAddress - 512\<close>
  and \<open>addr - 1\<close> are computed in 16-bit unsigned arithmetic and wrap around.
\<close>

definition shouldTestAddress :: "'g tester \<Rightarrow> u16 \<Rightarrow> bool \<Rightarrow> bool" where
  "shouldTestAddress s addr fullTest =
     (if fullTest then True
      else if addr < 512 then True
      else if addr > maxAddress s - 512 then True
      else if addr AND (addr - 1) = 0 then True
      else if addr AND 0x7F = 0 then True
      else False)"


section \<open>Reporting\<close>

definition sendProgress :: "string \<Rightarrow> u16 \<Rightarrow> u16 \<Rightarrow> 'g tester \<Rightarrow> 'g tester" where
  "sendProgress message current total' s =
     (if uart s
      then (let percent = ucast ((ucast current * 100 :: u32) div ucast total') :: u8
            in s\<lparr>serial := serial s @ [Progress message percent]\<rparr>)
      else s)"

definition sendTestStart :: "u8 \<Rightarrow> bool \<Rightarrow> 'g tester \<Rightarrow> 'g tester" where
  "sendTestStart testNumber fullTest s =
     (if uart s then s\<lparr>serial := serial s @ [TestStart testNumber fullTest]\<rparr> else s)"

definition sendTestResult :: "u8 \<Rightarrow> bool \<Rightarrow> 'g tester \<Rightarrow> 'g tester" where
  "sendTestResult testNumber passed s =
     (if uart s then s\<lparr>serial := serial s @ [TestResult testNumber passed]\<rparr> else s)"

definition sendTestError :: "u8 \<Rightarrow> u16 \<Rightarrow> u8 \<Rightarrow> u8 \<Rightarrow> 'g tester \<Rightarrow> 'g tester" where
  "sendTestError testNumber addr expected actual s =
     (if uart s then s\<lparr>serial := serial s @ [TestError testNumber addr expected actual]\<rparr>
      else s)"

definition uart_send :: "report \<Rightarrow> 'g tester \<Rightarrow> 'g tester" where
  "uart_send r s = s\<lparr>serial := serial s @ [r]\<rparr>"

section \<open>Loops and early return\<close>

text \<open>
  A loop body returns \<open>(True, s)\<close> to go on with the next iteration (also after
  \<open>continue\<close>) and \<open>(False, s)\<close> when it executes \<open>return false\<close>.

  \<open>for (uint16_t addr = 0; addr <= maxAddress; addr++)\<close>: the counter wraps at 65535,
  so the loop does not end when \<open>maxAddress\<close> is 65535; the result is then \<open>None\<close>.
\<close>

partial_function (option) for_addr ::
  "(u16 \<Rightarrow> 'g tester \<Rightarrow> bool \<times> 'g tester) \<Rightarrow> u16 \<Rightarrow> 'g tester \<Rightarrow> (bool \<times> 'g tester) option"
where
  "for_addr body addr s =
     (if addr \<le> maxAddress s
      then (let (go_on, s') = body addr s
            in if go_on then for_addr body (addr + 1) s' else Some (False, s'))
      else Some (True, s))"

declare for_addr.simps [code]

text \<open>\<open>for (uint8_t bit = 0; bit < bound; bit++)\<close>, the bound read in every round.\<close>

partial_function (option) for_bit ::
  "('g tester \<Rightarrow> u8) \<Rightarrow> (u8 \<Rightarrow> 'g tester \<Rightarrow> bool \<times> 'g tester) \<Rightarrow> u8 \<Rightarrow> 'g tester
   \<Rightarrow> (bool \<times> 'g tester) option"
where
  "for_bit bound body bit' s =
     (if bit' < bound s
      then (let (go_on, s') = body bit' s
            in if go_on then for_bit bound body (bit' + 1) s' else Some (False, s'))
      else Some (True, s))"

declare for_bit.simps [code]

text \<open>
  Sequencing inside a test: when the loop before has returned false, or has not ended,
  the rest of the function is not run.
\<close>

definition and_then ::
  "(bool \<times> 's) option \<Rightarrow> ('s \<Rightarrow> (bool \<times> 's) option) \<Rightarrow> (bool \<times> 's) option" where
  "and_then m k =
     (case m of None \<Rightarrow> None | Some (ok, s) \<Rightarrow> if ok then k s else Some (False, s))"


section \<open>The library's pseudo-random generator\<close>

text \<open>
  \<open>randomSeed\<close> and \<open>random\<close> belong to the Arduino core, not to this repository: they
  are a parameter of the model.  \<open>'g\<close> is the generator's state, \<open>random_long howbig\<close>
  returns the \<open>long\<close> drawn and the next state.
\<close>

record 'g arduino_random =
  randomSeed :: "u32 \<Rightarrow> 'g \<Rightarrow> 'g"
  random_long :: "u32 \<Rightarrow> 'g \<Rightarrow> u32 \<times> 'g"

section \<open>The seven test patterns\<close>

definition testBasicReadWrite :: "bool \<Rightarrow> 'g tester \<Rightarrow> (bool \<times> 'g tester) option" where
  "testBasicReadWrite fullTest s0 =
     and_then
       (for_addr (\<lambda>addr s.
          if \<not> shouldTestAddress s addr fullTest then (True, s)
          else (let s = writeByte addr 0xAA s;
                    (read, s) = readByte addr s
                in if read \<noteq> 0xAA
                   then (False, sendTestResult 1 False (sendTestError 1 addr 0xAA read s))
                   else (True, if fullTest \<and> addr AND 0x0FFF = 0 \<and> addr > 0
                               then sendProgress ''Test 1'' addr (maxAddress s) s else s)))
          0 (sendTestStart 1 fullTest s0))
       (\<lambda>s1. and_then
          (for_addr (\<lambda>addr s.
             if \<not> shouldTestAddress s addr fullTest then (True, s)
             else (let s = writeByte addr 0x55 s;
                       (read, s) = readByte addr s
                   in if read \<noteq> 0x55
                      then (False, sendTestResult 1 False (sendTestError 1 addr 0x55 read s))
                      else (True, s)))
             0 s1)
          (\<lambda>s2. Some (True, sendTestResult 1 True s2)))"

text \<open>
  \<open>1 << bit\<close> is a shift of a 16-bit \<open>int\<close>; it is defined for \<open>bit < 16\<close>, which
  \<open>setSize\<close> guarantees, and modelled as a shift of a 16-bit word.
\<close>

definition testWalkingOnesAddress :: "bool \<Rightarrow> 'g tester \<Rightarrow> (bool \<times> 'g tester) option" where
  "testWalkingOnesAddress fullTest s0 =
     (let testPattern = 0xAA in
      and_then
        (for_bit addressBits (\<lambda>bit' s.
           (let addr = push_bit (unat bit') 1 :: u16;
                s = writeByte addr testPattern s;
                (read, s) = readByte addr s
            in if read \<noteq> testPattern
               then (False,
                     sendTestResult 2 False
                       ((if uart s then uart_send (AddressLineHint bit') else (\<lambda>t. t))
                          (sendTestError 2 addr testPattern read s)))
               else (True, s)))
           0 (sendTestStart 2 fullTest s0))
        (\<lambda>s1. Some (True, sendTestResult 2 True s1)))"

definition testWalkingOnesData :: "bool \<Rightarrow> 'g tester \<Rightarrow> (bool \<times> 'g tester) option" where
  "testWalkingOnesData fullTest s0 =
     (let testAddr = 0x0000 in
      and_then
        (for_bit (\<lambda>s. 8) (\<lambda>bit' s.
           (let testPattern = push_bit (unat bit') 1 :: u8;
                s = writeByte testAddr testPattern s;
                (read, s) = readByte testAddr s
            in if read \<noteq> testPattern
               then (False,
                     sendTestResult 3 False
                       ((if uart s then uart_send (DataLineHint bit') else (\<lambda>t. t))
                          (sendTestError 3 testAddr testPattern read s)))
               else (True, s)))
           0 (sendTestStart 3 fullTest s0))
        (\<lambda>s1. Some (True, sendTestResult 3 True s1)))"

definition testCheckerboard :: "bool \<Rightarrow> 'g tester \<Rightarrow> (bool \<times> 'g tester) option" where
  "testCheckerboard fullTest s0 =
     and_then
       (for_addr (\<lambda>addr s.
          if \<not> shouldTestAddress s addr fullTest then (True, s)
          else (let s = writeByte addr 0x55 s
                in (True, if fullTest \<and> addr AND 0x0FFF = 0 \<and> addr > 0
                          then sendProgress ''Test 4 (write 0x55)'' addr (maxAddress s) s
                          else s)))
          0 (sendTestStart 4 fullTest s0))
       (\<lambda>s1. and_then
          (for_addr (\<lambda>addr s.
             if \<not> shouldTestAddress s addr fullTest then (True, s)
             else (let (read, s) = readByte addr s
                   in if read \<noteq> 0x55
                      then (False, sendTestResult 4 False (sendTestError 4 addr 0x55 read s))
                      else (True, if fullTest \<and> addr AND 0x0FFF = 0 \<and> addr > 0
                                  then sendProgress ''Test 4 (verify 0x55)'' addr (maxAddress s) s
                                  else s)))
             0 s1)
          (\<lambda>s2. and_then
             (for_addr (\<lambda>addr s.
                if \<not> shouldTestAddress s addr fullTest then (True, s)
                else (True, writeByte addr 0xAA s))
                0 s2)
             (\<lambda>s3. and_then
                (for_addr (\<lambda>addr s.
                   if \<not> shouldTestAddress s addr fullTest then (True, s)
                   else (let (read, s) = readByte addr s
                         in if read \<noteq> 0xAA
                            then (False,
                                  sendTestResult 4 False (sendTestError 4 addr 0xAA read s))
                            else (True, s)))
                   0 s3)
                (\<lambda>s4. Some (True, sendTestResult 4 True s4)))))"

definition testInverseCheckerboard :: "bool \<Rightarrow> 'g tester \<Rightarrow> (bool \<times> 'g tester) option" where
  "testInverseCheckerboard fullTest s0 =
     and_then
       (for_addr (\<lambda>addr s.
          if \<not> shouldTestAddress s addr fullTest then (True, s)
          else (let s = writeByte addr 0xAA s
                in (True, if fullTest \<and> addr AND 0x0FFF = 0 \<and> addr > 0
                          then sendProgress ''Test 5 (write 0xAA)'' addr (maxAddress s) s
                          else s)))
          0 (sendTestStart 5 fullTest s0))
       (\<lambda>s1. and_then
          (for_addr (\<lambda>addr s.
             if \<not> shouldTestAddress s addr fullTest then (True, s)
             else (let (read, s) = readByte addr s
                   in if read \<noteq> 0xAA
                      then (False, sendTestResult 5 False (sendTestError 5 addr 0xAA read s))
                      else (True, if fullTest \<and> addr AND 0x0FFF = 0 \<and> addr > 0
                                  then sendProgress ''Test 5 (verify 0xAA)'' addr (maxAddress s) s
                                  else s)))
             0 s1)
          (\<lambda>s2. and_then
             (for_addr (\<lambda>addr s.
                if \<not> shouldTestAddress s addr fullTest then (True, s)
                else (True, writeByte addr 0x55 s))
                0 s2)
             (\<lambda>s3. and_then
                (for_addr (\<lambda>addr s.
                   if \<not> shouldTestAddress s addr fullTest then (True, s)
                   else (let (read, s) = readByte addr s
                         in if read \<noteq> 0x55
                            then (False,
                                  sendTestResult 5 False (sendTestError 5 addr 0x55 read s))
                            else (True, s)))
                   0 s3)
                (\<lambda>s4. Some (True, sendTestResult 5 True s4)))))"

definition testAddressEqualsData :: "bool \<Rightarrow> 'g tester \<Rightarrow> (bool \<times> 'g tester) option" where
  "testAddressEqualsData fullTest s0 =
     and_then
       (for_addr (\<lambda>addr s.
          if \<not> shouldTestAddress s addr fullTest then (True, s)
          else (let data = ucast (addr AND 0xFF) :: u8;
                    s = writeByte addr data s
                in (True, if fullTest \<and> addr AND 0x0FFF = 0 \<and> addr > 0
                          then sendProgress ''Test 6 (write)'' addr (maxAddress s) s
                          else s)))
          0 (sendTestStart 6 fullTest s0))
       (\<lambda>s1. and_then
          (for_addr (\<lambda>addr s.
             if \<not> shouldTestAddress s addr fullTest then (True, s)
             else (let expected = ucast (addr AND 0xFF) :: u8;
                       (actual, s) = readByte addr s
                   in if actual \<noteq> expected
                      then (False,
                            sendTestResult 6 False (sendTestError 6 addr expected actual s))
                      else (True, if fullTest \<and> addr AND 0x0FFF = 0 \<and> addr > 0
                                  then sendProgress ''Test 6 (verify)'' addr (maxAddress s) s
                                  else s)))
             0 s1)
          (\<lambda>s2. Some (True, sendTestResult 6 True s2)))"

definition testRandomPattern ::
  "'g arduino_random \<Rightarrow> bool \<Rightarrow> 'g tester \<Rightarrow> (bool \<times> 'g tester) option" where
  "testRandomPattern L fullTest s0 =
     (let s = sendTestStart 7 fullTest s0;
          s = s\<lparr>rng := randomSeed L 12345 (rng s)\<rparr>
      in and_then
        (for_addr (\<lambda>addr s.
           if \<not> shouldTestAddress s addr fullTest then (True, s)
           else (let (r, g) = random_long L 256 (rng s);
                     s = s\<lparr>rng := g\<rparr>;
                     data = ucast r :: u8;
                     s = writeByte addr data s
                 in (True, if fullTest \<and> addr AND 0x0FFF = 0 \<and> addr > 0
                           then sendProgress ''Test 7 (write)'' addr (maxAddress s) s
                           else s)))
           0 s)
        (\<lambda>s1. (let s = s1\<lparr>rng := randomSeed L 12345 (rng s1)\<rparr>
          in and_then
            (for_addr (\<lambda>addr s.
               if \<not> shouldTestAddress s addr fullTest then (True, s)
               else (let (r, g) = random_long L 256 (rng s);
                         s = s\<lparr>rng := g\<rparr>;
                         expected = ucast r :: u8;
                         (actual, s) = readByte addr s
                     in if actual \<noteq> expected
                        then (False,
                              sendTestResult 7 False (sendTestError 7 addr expected actual s))
                        else (True, if fullTest \<and> addr AND 0x0FFF = 0 \<and> addr > 0
                                    then sendProgress ''Test 7 (verify)'' addr (maxAddress s) s
                                    else s)))
               0 s)
            (\<lambda>s2. Some (True, sendTestResult 7 True s2)))))"

section \<open>Running one test, running the catalogue\<close>

definition runTest ::
  "'g arduino_random \<Rightarrow> u8 \<Rightarrow> bool \<Rightarrow> 'g tester \<Rightarrow> (bool \<times> 'g tester) option" where
  "runTest L testNumber fullTest s =
     (if testNumber = 1 then testBasicReadWrite fullTest s
      else if testNumber = 2 then testWalkingOnesAddress fullTest s
      else if testNumber = 3 then testWalkingOnesData fullTest s
      else if testNumber = 4 then testCheckerboard fullTest s
      else if testNumber = 5 then testInverseCheckerboard fullTest s
      else if testNumber = 6 then testAddressEqualsData fullTest s
      else if testNumber = 7 then testRandomPattern L fullTest s
      else Some (False, if uart s then uart_send (SendError ''Invalid test number (1-7)'') s
                        else s))"

partial_function (option) runAllTests_loop ::
  "'g arduino_random \<Rightarrow> bool \<Rightarrow> u8 \<Rightarrow> u8 \<Rightarrow> bool \<Rightarrow> 'g tester \<Rightarrow> (bool \<times> 'g tester) option"
where
  "runAllTests_loop L fullTest maxTest test allPassed s =
     (if test \<le> maxTest
      then Option.bind (runTest L test fullTest s)
             (\<lambda>(passed, s').
                runAllTests_loop L fullTest maxTest (test + 1)
                  (if \<not> passed then False else allPassed) s')
      else Some (allPassed, s))"

declare runAllTests_loop.simps [code]

definition runAllTests ::
  "'g arduino_random \<Rightarrow> bool \<Rightarrow> bool \<Rightarrow> 'g tester \<Rightarrow> (bool \<times> 'g tester) option" where
  "runAllTests L includeRandom fullTest s =
     (if sramSize s = 0
      then Some (False, if uart s then uart_send (SendError ''SRAM size not configured'') s
                        else s)
      else (let maxTest = (if includeRandom then 7 else 6) :: u8
            in Option.bind (runAllTests_loop L fullTest maxTest 1 True s)
                 (\<lambda>(allPassed, s').
                    Some (allPassed,
                          if uart s'
                          then (if allPassed then uart_send (SendOK ''All tests PASSED'') s'
                                else uart_send (SendError ''Some tests FAILED'') s')
                          else s'))))"

definition runTests :: "'g arduino_random \<Rightarrow> 'g tester \<Rightarrow> (bool \<times> 'g tester) option" where
  "runTests L s = runAllTests L False False s"


section \<open>The MODE command\<close>

datatype ICMode = NONE | Z80 | IC6502 | SRAM62256

text \<open>The strategy objects a \<open>ModeManager\<close> can point to; only one exists so far.\<close>

datatype strategy_ref = SramStrategy

record 'g firmware =
  sramStrategy :: "'g tester"
  currentStrategy :: "strategy_ref option"
  currentMode :: ICMode

definition setStrategy :: "strategy_ref option \<Rightarrow> ICMode \<Rightarrow> 'g firmware \<Rightarrow> 'g firmware" where
  "setStrategy strategy mode fw = fw\<lparr>currentStrategy := strategy, currentMode := mode\<rparr>"

definition clearStrategy :: "'g firmware \<Rightarrow> 'g firmware" where
  "clearStrategy fw = fw\<lparr>currentStrategy := None, currentMode := NONE\<rparr>"

text \<open>
  The operations of the Arduino \<open>String\<close> class that \<open>handleModeCommand\<close> uses.
  \<open>toInt\<close> is the C library's \<open>atol\<close>: leading white space, an optional sign, then
  decimal digits up to the first other character; no digits give 0.  The value is
  kept as an unbounded integer and cut to 32 bits where the firmware stores it in a
  \<open>uint32_t\<close>.
\<close>

definition isspace :: "char \<Rightarrow> bool" where
  "isspace c \<longleftrightarrow> c \<in> set [CHR '' '', CHR 0x09, CHR 0x0A, CHR 0x0B, CHR 0x0C, CHR 0x0D]"

definition trim :: "string \<Rightarrow> string" where
  "trim str = rev (dropWhile isspace (rev (dropWhile isspace str)))"

definition startsWith :: "string \<Rightarrow> string \<Rightarrow> bool" where
  "startsWith str prefix \<longleftrightarrow> take (length prefix) str = prefix"

definition substring :: "string \<Rightarrow> nat \<Rightarrow> string" where
  "substring str left = drop left str"

definition isdigit :: "char \<Rightarrow> bool" where
  "isdigit c \<longleftrightarrow> c \<in> set ''0123456789''"

fun atol_digits :: "string \<Rightarrow> int \<Rightarrow> int" where
  "atol_digits [] acc = acc"
| "atol_digits (c # cs) acc =
     (if isdigit c then atol_digits cs (10 * acc + (of_char c - 48)) else acc)"

definition toInt :: "string \<Rightarrow> int" where
  "toInt str =
     (case dropWhile isspace str of
        [] \<Rightarrow> 0
      | c # cs \<Rightarrow>
          if c = CHR ''-'' then - atol_digits cs 0
          else if c = CHR ''+'' then atol_digits cs 0
          else atol_digits (c # cs) 0)"

text \<open>\<open>String(n)\<close> for an unsigned number: its decimal digits.\<close>

fun String_of_nat :: "nat \<Rightarrow> string" where
  "String_of_nat n =
     (if n < 10 then [''0123456789'' ! n]
      else String_of_nat (n div 10) @ [''0123456789'' ! (n mod 10)])"

definition uart_sendInfo :: "string \<Rightarrow> 'g firmware \<Rightarrow> 'g firmware" where
  "uart_sendInfo message fw = fw\<lparr>sramStrategy := uart_send (SendInfo message) (sramStrategy fw)\<rparr>"

definition uart_sendOK :: "string \<Rightarrow> 'g firmware \<Rightarrow> 'g firmware" where
  "uart_sendOK message fw = fw\<lparr>sramStrategy := uart_send (SendOK message) (sramStrategy fw)\<rparr>"

definition uart_sendError :: "string \<Rightarrow> 'g firmware \<Rightarrow> 'g firmware" where
  "uart_sendError message fw = fw\<lparr>sramStrategy := uart_send (SendError message) (sramStrategy fw)\<rparr>"

definition handleModeCommand :: "string \<Rightarrow> 'g firmware \<Rightarrow> 'g firmware" where
  "handleModeCommand parameter fw =
     (if length parameter = 0
      then run [uart_sendError ''Missing IC type. Usage: MODE <IC>'',
                uart_sendInfo ''IC types: Z80, 6502, SRAM <size>'',
                uart_sendInfo ''Example: MODE SRAM 32768''] fw
      else if startsWith parameter ''SRAM ''
      then (let sizeStr = trim (substring parameter 5)
            in if length sizeStr = 0
               then run [uart_sendError ''Missing SRAM size. Usage: MODE SRAM <size>'',
                         uart_sendInfo ''Valid sizes: 8192 (8KB), 32768 (32KB)''] fw
               else (let size' = word_of_int (toInt sizeStr) :: u32
                     in if size' = 0 \<or> size' > 65536
                        then run [uart_sendError ''Invalid SRAM size'',
                                  uart_sendInfo ''Valid sizes: 8192 (8KB), 32768 (32KB)''] fw
                        else run
                          [\<lambda>fw. fw\<lparr>sramStrategy := setSize (ucast size') (sramStrategy fw)\<rparr>,
                           \<lambda>fw. fw\<lparr>sramStrategy := setUARTHandler True (sramStrategy fw)\<rparr>,
                           \<lambda>fw. fw\<lparr>sramStrategy := configurePins (sramStrategy fw)\<rparr>,
                           setStrategy (Some SramStrategy) SRAM62256,
                           uart_sendOK (''SRAM mode set: ''
                              @ String_of_nat (unat (ucast size' :: u16)) @ '' bytes''),
                           \<lambda>fw. if size' = 32768
                                 then uart_sendInfo ''Configured for HM62256 (32KB)'' fw
                                 else if size' = 8192
                                 then uart_sendInfo ''Configured for HM6265/D4168 (8KB)'' fw
                                 else fw] fw))
      else if parameter = ''Z80''
      then run [uart_sendError ''Z80 strategy not implemented yet'',
                uart_sendInfo ''Will be available in Phase 4''] fw
      else if parameter = ''6502''
      then run [uart_sendError ''6502 strategy not implemented yet'',
                uart_sendInfo ''Will be available in Phase 5''] fw
      else run [uart_sendError ''Invalid IC type'',
                uart_sendInfo ''IC types: Z80, 6502, SRAM <size>'',
                uart_sendInfo ''Example: MODE SRAM 32768''] fw)"

section \<open>A tester at power-on\<close>

text \<open>
  The members as the constructor of \<open>SRAMStrategy\<close> leaves them, the port registers
  at their reset value 0, a device whose cells hold 0 and whose decoder selects one
  cell per address, and no mode selected.
\<close>

definition power_on :: "u32 tester" where
  "power_on =
     \<lparr>sramSize = 0, maxAddress = 0, addressBits = 0, uart = False,
      DDRA = 0, DDRC = 0, DDRG = 0, DDRL = 0, PORTA = 0, PORTC = 0, PORTG = 0, PORTL = 0,
      cells = (\<lambda>a. 0), decode = (\<lambda>a. a), floating = 0xFF, serial = [], rng = 1,
      bus_log = []\<rparr>"

definition firmware_start :: "u32 firmware" where
  "firmware_start = \<lparr>sramStrategy = power_on, currentStrategy = None, currentMode = NONE\<rparr>"

text \<open>
  An instance of the library parameter: a minimal-standard (Park-Miller) generator on a
  31-bit state, seeded by overwriting the state unless the seed is 0.
\<close>

definition minstd_step :: "u32 \<Rightarrow> u32" where
  "minstd_step g =
     (let x = (if g = 0 then 123459876 else uint g);
          hi = x div 127773;
          lo = x mod 127773;
          t = 16807 * lo - 2836 * hi
      in word_of_int (if t < 0 then t + 0x7FFFFFFF else t))"

definition minstd :: "u32 arduino_random" where
  "minstd =
     \<lparr>randomSeed = (\<lambda>seed g. if seed \<noteq> 0 then seed else g),
      random_long = (\<lambda>howbig g.
         if howbig = 0 then (0, g)
         else (let g' = minstd_step g in ((g' AND 0x7FFFFFFF) mod howbig, g')))\<rparr>"


section \<open>Notions used to state the properties\<close>

text \<open>The four operations on the port that the strategy offers, and sequences of them.\<close>

datatype port_op = WriteByte u16 u8 | ReadByte u16 | ConfigurePins | Reset

fun exec_op :: "port_op \<Rightarrow> 'g tester \<Rightarrow> 'g tester" where
  "exec_op (WriteByte addr d) s = writeByte addr d s"
| "exec_op (ReadByte addr) s = snd (readByte addr s)"
| "exec_op ConfigurePins s = configurePins s"
| "exec_op Reset s = reset s"

fun exec_ops :: "port_op list \<Rightarrow> 'g tester \<Rightarrow> 'g tester" where
  "exec_ops [] s = s"
| "exec_ops (op # ops) s = exec_ops ops (exec_op op s)"

text \<open>The addresses a pattern visits in QUICK mode and in FULL mode.\<close>

definition sampled :: "'g tester \<Rightarrow> u16 set" where
  "sampled s = {addr. addr \<le> maxAddress s \<and> shouldTestAddress s addr False}"

definition exhaustive :: "'g tester \<Rightarrow> u16 set" where
  "exhaustive s = {addr. addr \<le> maxAddress s \<and> shouldTestAddress s addr True}"

text \<open>
  The rounds of a loop over a known list of counter values, and the counter values of
  the address loops.
\<close>

fun list_loop :: "('i \<Rightarrow> 's \<Rightarrow> bool \<times> 's) \<Rightarrow> 'i list \<Rightarrow> 's \<Rightarrow> bool \<times> 's" where
  "list_loop body [] s = (True, s)"
| "list_loop body (i # is) s =
     (let (go_on, s') = body i s in if go_on then list_loop body is s' else (False, s'))"

definition addresses :: "'g tester \<Rightarrow> u16 list" where
  "addresses s = map word_of_nat [0 ..< Suc (unat (maxAddress s))]"

text \<open>The outcomes of whole tests that were sent to the UART, in order.\<close>

fun results :: "report list \<Rightarrow> (u8 \<times> bool) list" where
  "results [] = []"
| "results (TestResult n passed # rs) = (n, passed) # results rs"
| "results (r # rs) = results rs"

text \<open>
  The shapes the loop bodies of the seven tests have.  A round of a write phase draws a
  byte for the address, writes it and reports progress; a round of a verify phase
  draws the expected byte, reads and compares; a round of the first three tests writes
  and reads back at once.  \<open>skip_untested\<close> is the \<open>continue\<close> for an address outside
  the coverage.
\<close>

definition skip_untested ::
  "bool \<Rightarrow> (u16 \<Rightarrow> 'g tester \<Rightarrow> bool \<times> 'g tester) \<Rightarrow> u16 \<Rightarrow> 'g tester \<Rightarrow> bool \<times> 'g tester" where
  "skip_untested fullTest round addr s =
     (if \<not> shouldTestAddress s addr fullTest then (True, s) else round addr s)"

definition write_round ::
  "(u16 \<Rightarrow> 'g \<Rightarrow> u8 \<times> 'g) \<Rightarrow> (u16 \<Rightarrow> 'g tester \<Rightarrow> 'g tester) \<Rightarrow> u16 \<Rightarrow> 'g tester
   \<Rightarrow> bool \<times> 'g tester" where
  "write_round gen rep addr s =
     (let (d, g) = gen addr (rng s);
          s = s\<lparr>rng := g\<rparr>;
          s = writeByte addr d s
      in (True, rep addr s))"

definition verify_round ::
  "u8 \<Rightarrow> (u16 \<Rightarrow> 'g \<Rightarrow> u8 \<times> 'g) \<Rightarrow> (u16 \<Rightarrow> 'g tester \<Rightarrow> 'g tester) \<Rightarrow> u16 \<Rightarrow> 'g tester
   \<Rightarrow> bool \<times> 'g tester" where
  "verify_round n gen rep addr s =
     (let (e, g) = gen addr (rng s);
          s = s\<lparr>rng := g\<rparr>;
          (actual, s) = readByte addr s
      in if actual \<noteq> e
         then (False, sendTestResult n False (sendTestError n addr e actual s))
         else (True, rep addr s))"

definition write_read_round ::
  "u8 \<Rightarrow> ('i \<Rightarrow> u16) \<Rightarrow> ('i \<Rightarrow> u8) \<Rightarrow> ('i \<Rightarrow> 'g tester \<Rightarrow> 'g tester)
   \<Rightarrow> ('i \<Rightarrow> 'g tester \<Rightarrow> 'g tester) \<Rightarrow> 'i \<Rightarrow> 'g tester \<Rightarrow> bool \<times> 'g tester" where
  "write_read_round n addr_of val_of hint rep i s =
     (let s = writeByte (addr_of i) (val_of i) s;
          (read, s) = readByte (addr_of i) s
      in if read \<noteq> val_of i
         then (False,
               sendTestResult n False (hint i (sendTestError n (addr_of i) (val_of i) read s)))
         else (True, rep i s))"

definition progress_at :: "bool \<Rightarrow> string \<Rightarrow> u16 \<Rightarrow> 'g tester \<Rightarrow> 'g tester" where
  "progress_at fullTest label addr s =
     (if fullTest \<and> addr AND 0x0FFF = 0 \<and> addr > 0
      then sendProgress label addr (maxAddress s) s else s)"

definition no_report :: "'i \<Rightarrow> 'g tester \<Rightarrow> 'g tester" where
  "no_report i s = s"

definition const_gen :: "(u16 \<Rightarrow> u8) \<Rightarrow> u16 \<Rightarrow> 'g \<Rightarrow> u8 \<times> 'g" where
  "const_gen v addr g = (v addr, g)"

definition random_gen :: "'g arduino_random \<Rightarrow> u16 \<Rightarrow> 'g \<Rightarrow> u8 \<times> 'g" where
  "random_gen L addr g = (let (r, g') = random_long L 256 g in (ucast r, g'))"

definition line_hint :: "(u8 \<Rightarrow> report) \<Rightarrow> u8 \<Rightarrow> 'g tester \<Rightarrow> 'g tester" where
  "line_hint mk i s = (if uart s then uart_send (mk i) s else s)"

text \<open>
  What a round and a test leave unchanged and what they report: \<open>same_setup\<close> compares
  the configuration, \<open>quiet\<close> is a reporter that sends no test outcome, \<open>round_ok\<close>
  and \<open>test_ok\<close> say that a round respectively a test keeps the configuration and
  sends an outcome exactly when it returns (false for a round, the result for a test).
\<close>

definition same_setup :: "'g tester \<Rightarrow> 'g tester \<Rightarrow> bool" where
  "same_setup s s' \<longleftrightarrow>
     sramSize s' = sramSize s \<and> maxAddress s' = maxAddress s
     \<and> addressBits s' = addressBits s \<and> uart s' = uart s \<and> decode s' = decode s"

definition quiet :: "('i \<Rightarrow> 'g tester \<Rightarrow> 'g tester) \<Rightarrow> bool" where
  "quiet rep \<longleftrightarrow> (\<forall>i t. \<exists>ms. rep i t = t\<lparr>serial := serial t @ ms\<rparr> \<and> results ms = [])"

definition round_ok :: "u8 \<Rightarrow> 'g tester \<Rightarrow> bool \<times> 'g tester \<Rightarrow> bool" where
  "round_ok n s r \<longleftrightarrow>
     same_setup s (snd r)
     \<and> results (serial (snd r))
         = results (serial s) @ (if fst r then [] else if uart s then [(n, False)] else [])"



text \<open>
  A tester at rest has /CS, /OE and /WE high.  \<open>driven\<close> is the level of the sixteen
  address lines that \<open>setAddress\<close> produces for an address, \<open>cell_of\<close> the cell
  the device selects for it.  The device is fault-free for the configured size when
  its decoder selects a different cell for each of the addresses below the size;
  \<open>fault_free\<close> adds that the tester is at rest and configured.  Nothing is asked of
  the decoder at levels of the address lines that the tester never drives, so a device
  that ignores A15, or A13 to A15, is fault-free.
\<close>

definition idle :: "'g tester \<Rightarrow> bool" where
  "idle s \<longleftrightarrow> bit (PORTG s) 0 \<and> bit (PORTG s) 2 \<and> bit (PORTG s) 3"

definition driven :: "'g tester \<Rightarrow> u16 \<Rightarrow> u16" where
  "driven s addr = (if sramSize s \<le> 8192 then addr OR 0x2000 else addr)"

definition cell_of :: "'g tester \<Rightarrow> u16 \<Rightarrow> u16" where
  "cell_of s addr = decode s (driven s addr)"

definition fault_free :: "'g tester \<Rightarrow> bool" where
  "fault_free s \<longleftrightarrow>
     idle s \<and> sramSize s \<noteq> 0 \<and> maxAddress s = sramSize s - 1
     \<and> distinct (map (cell_of s) (addresses s))"






text \<open>What a phase on a tester at rest leaves behind.\<close>

definition at_rest_after :: "'g tester \<Rightarrow> access list \<Rightarrow> 'g tester \<Rightarrow> bool" where
  "at_rest_after s log s' \<longleftrightarrow>
     idle s' \<and> same_setup s s' \<and> bus_log s' = bus_log s @ log
     \<and> results (serial s') = results (serial s)"



text \<open>
  A tester for a 62256 as \<open>MODE SRAM 32768\<close> leaves it: the device has fifteen address
  lines and does not see A15.  \<open>a7_stuck_low\<close> is the same device with a fault: its
  address line A7 is stuck low, so the addresses 0x80 and 0 select the same cell.
\<close>

definition sram62256 :: "u32 tester" where
  "sram62256 =
     (sramStrategy (handleModeCommand ''SRAM 32768'' firmware_start))
       \<lparr>decode := (\<lambda>a. a AND 0x7FFF)\<rparr>"

definition a7_stuck_low :: "u32 tester" where
  "a7_stuck_low = sram62256\<lparr>decode := (\<lambda>a. a AND 0x7F7F)\<rparr>"

section \<open>Basic facts about the bus cycles\<close>

lemma run_Nil: "run [] s = s"
  by (simp add: run_def)

lemma run_Cons: "run (f # fs) s = run fs (f s)"
  by (simp add: run_def)

lemma sram_latch_fields:
  "sramSize (sram_latch s) = sramSize s"
  "maxAddress (sram_latch s) = maxAddress s"
  "addressBits (sram_latch s) = addressBits s"
  "uart (sram_latch s) = uart s"
  "DDRA (sram_latch s) = DDRA s"
  "DDRC (sram_latch s) = DDRC s"
  "DDRG (sram_latch s) = DDRG s"
  "DDRL (sram_latch s) = DDRL s"
  "PORTA (sram_latch s) = PORTA s"
  "PORTC (sram_latch s) = PORTC s"
  "PORTG (sram_latch s) = PORTG s"
  "PORTL (sram_latch s) = PORTL s"
  "decode (sram_latch s) = decode s"
  "floating (sram_latch s) = floating s"
  "serial (sram_latch s) = serial s"
  "rng (sram_latch s) = rng s"
  "bus_log (sram_latch s) = bus_log s"
  by (simp_all add: sram_latch_def)

lemmas op_defs =
  setAddress_def setAddress_steps_def writeByte_def writeByte_steps_def
  readByte_def readByte_select_def readByte_release_def
  configurePins_def configurePins_steps_def reset_def reset_steps_def
  delayMicroseconds_def run_Nil run_Cons Let_def

lemma xFF16: "(0xFF::u16) = mask 8"
  by (simp add: mask_eq_exp_minus_1)

lemma low_byte: "(ucast (a AND 0xFF :: u16) :: u8) = ucast a"
  unfolding xFF16 by (rule bit_eqI) (auto simp add: bit_simps)

lemma high_byte: "(ucast (drop_bit 8 a AND 0xFF :: u16) :: u8) = ucast (drop_bit 8 a)"
  unfolding xFF16 by (rule bit_eqI) (auto simp add: bit_simps)

lemma setAddress_ports:
  "PORTA (setAddress addr s) = ucast addr"
  "PORTC (setAddress addr s) = highByte_of s addr"
  by (simp_all add: op_defs sram_latch_fields low_byte highByte_of_def)

lemma cycle_ports:
  "PORTA (writeByte addr d s) = ucast addr"
  "PORTC (writeByte addr d s) = highByte_of s addr"
  "PORTA (snd (readByte addr s)) = ucast addr"
  "PORTC (snd (readByte addr s)) = highByte_of s addr"
  by (simp_all add: op_defs sram_latch_fields low_byte highByte_of_def)

lemma writeByte_PORTC_states:
  "map PORTC (states_of (writeByte_steps addr d) s) = replicate 9 (highByte_of s addr)"
  by (simp add: op_defs sram_latch_fields highByte_of_def numeral_eq_Suc)

lemma writeByte_DDRL_states:
  "map DDRL (states_of (writeByte_steps addr d) s)
     = [DDRL s, 0xFF, 0xFF, 0xFF, 0xFF, 0xFF, 0xFF, 0xFF, 0x00]"
  by (simp add: op_defs sram_latch_fields)

lemma DDRL_after:
  "DDRL (writeByte addr d s) = 0"
  "DDRL (snd (readByte addr s)) = 0"
  "DDRL (configurePins s) = 0"
  "DDRL (reset s) = 0"
  by (simp_all add: op_defs sram_latch_fields)

lemma DDRL_states_input:
  "map DDRL (states_of (readByte_select addr) s) = [DDRL s, 0, 0, 0, 0]"
  "map DDRL (states_of readByte_release s) = [DDRL s, DDRL s]"
  "map DDRL (states_of configurePins_steps s) = [DDRL s, DDRL s, 0, 0, 0, 0]"
  "map DDRL (states_of reset_steps s) = [DDRL s, 0]"
  by (simp_all add: op_defs sram_latch_fields)

lemma DDRL_exec_op: "DDRL (exec_op op s) = 0"
  by (cases op) (simp_all add: DDRL_after)

lemma DDRL_exec_ops: "ops \<noteq> [] \<or> DDRL s = 0 \<Longrightarrow> DDRL (exec_ops ops s) = 0"
proof (induction ops arbitrary: s)
  case Nil
  then show ?case by simp
next
  case (Cons op ops)
  have "DDRL (exec_op op s) = 0"
    by (rule DDRL_exec_op)
  then have "DDRL (exec_ops ops (exec_op op s)) = 0"
    using Cons.IH by blast
  then show ?case by simp
qed

lemma power_on_fields:
  "sramSize power_on = 0" "maxAddress power_on = 0" "uart power_on = False"
  "DDRL power_on = 0" "PORTG power_on = 0" "serial power_on = []" "bus_log power_on = []"
  "cells power_on = (\<lambda>a. 0)" "decode power_on = (\<lambda>a. a)" "rng power_on = 1"
  by (simp_all add: power_on_def)

lemma setSize_fields:
  "sramSize (setSize n s) = n"
  "maxAddress (setSize n s) = n - 1"
  "addressBits (setSize n s) = count_bits (n - 1) 0"
  "uart (setSize n s) = uart s"
  "DDRL (setSize n s) = DDRL s"
  "PORTG (setSize n s) = PORTG s"
  "cells (setSize n s) = cells s"
  "decode (setSize n s) = decode s"
  "serial (setSize n s) = serial s"
  "bus_log (setSize n s) = bus_log s"
  "rng (setSize n s) = rng s"
  by (simp_all add: setSize_def)

section \<open>The data bus is released after every operation\<close>

text \<open>
  C1.  \<open>writeByte\<close> turns the data-bus direction register to output (\<open>DDRL = 0xFF\<close>)
  only after it has set the address, keeps it so during the write pulse, and its last
  statement turns it back to input (\<open>DDRL = 0x00\<close>), whatever the state it started in.
  \<open>readByte\<close>, \<open>configurePins\<close> and \<open>reset\<close> end with the direction at input, and
  when they start with it at input every statement of theirs leaves it there.  Hence
  after any non-empty sequence of port operations, and after any sequence begun with
  the direction at input, the direction is input.
\<close>

theorem data_bus_direction_input:
  "map DDRL (states_of (writeByte_steps addr d) s)
     = [DDRL s, 0xFF, 0xFF, 0xFF, 0xFF, 0xFF, 0xFF, 0xFF, 0x00]
   \<and> DDRL (writeByte addr d s) = 0
   \<and> DDRL (snd (readByte addr s)) = 0
   \<and> DDRL (configurePins s) = 0
   \<and> DDRL (reset s) = 0
   \<and> (DDRL s = 0 \<longrightarrow>
        (\<forall>t \<in> set (states_of (readByte_select addr) s
                    @ states_of readByte_release (run (readByte_select addr) s)
                    @ states_of configurePins_steps s
                    @ states_of reset_steps s). DDRL t = 0))
   \<and> (ops \<noteq> [] \<or> DDRL s = 0 \<longrightarrow> DDRL (exec_ops ops s) = 0)"
proof -
  have input_kept: "\<forall>t \<in> set (states_of (readByte_select addr) s
                    @ states_of readByte_release (run (readByte_select addr) s)
                    @ states_of configurePins_steps s
                    @ states_of reset_steps s). DDRL t = 0" if "DDRL s = 0"
  proof -
    have sel: "DDRL (run (readByte_select addr) s) = 0"
      by (simp add: op_defs sram_latch_fields)
    have "set (map DDRL (states_of (readByte_select addr) s
                    @ states_of readByte_release (run (readByte_select addr) s)
                    @ states_of configurePins_steps s
                    @ states_of reset_steps s)) \<subseteq> {0}"
      unfolding map_append DDRL_states_input using that sel by simp
    then show ?thesis by auto
  qed
  show ?thesis
    using writeByte_DDRL_states [of addr d s] DDRL_after input_kept DDRL_exec_ops [of ops s]
    by blast
qed

theorem data_bus_direction_input_witness:
  "DDRL (power_on :: u32 tester) = 0
   \<and> [ConfigurePins, WriteByte 0x0010 0xAA, ReadByte 0x0010] \<noteq> []
   \<and> DDRL (exec_ops [ConfigurePins, WriteByte 0x0010 0xAA, ReadByte 0x0010] power_on) = 0"
  using data_bus_direction_input
    [of "0x0010" "0xAA" power_on "[ConfigurePins, WriteByte 0x0010 0xAA, ReadByte 0x0010]"]
  by (simp add: power_on_fields)

section \<open>Pin 26 of the 8 KB devices\<close>

text \<open>
  C10.  \<open>setAddress\<close> puts the low byte of the address on PORTA.  When the configured
  size is at most 8192 it puts on PORTC the high byte with bit 5 (address line A13, pin
  26 of the device) set, whatever the address; when the size is above 8192 it puts
  the high byte there unchanged.  \<open>writeByte\<close> and \<open>readByte\<close> set the address first
  and do not touch the two ports afterwards, so the same holds during and after their
  cycles.
\<close>

theorem setAddress_pin26:
  "PORTA (setAddress addr s) = ucast addr
   \<and> (sramSize s \<le> 8192 \<longrightarrow>
        PORTC (setAddress addr s) = ucast (drop_bit 8 addr) OR 0x20
        \<and> bit (PORTC (setAddress addr s)) 5)
   \<and> (sramSize s > 8192 \<longrightarrow> PORTC (setAddress addr s) = ucast (drop_bit 8 addr))
   \<and> map PORTC (states_of (writeByte_steps addr d) s) = replicate 9 (PORTC (setAddress addr s))
   \<and> PORTA (writeByte addr d s) = PORTA (setAddress addr s)
   \<and> PORTC (writeByte addr d s) = PORTC (setAddress addr s)
   \<and> PORTA (snd (readByte addr s)) = PORTA (setAddress addr s)
   \<and> PORTC (snd (readByte addr s)) = PORTC (setAddress addr s)"
proof -
  have "bit (ucast (drop_bit 8 addr) OR (0x20 :: u8)) 5"
    by (simp add: bit_or_iff)
  then show ?thesis
    by (auto simp add: setAddress_ports cycle_ports writeByte_PORTC_states highByte_of_def
        high_byte Let_def)
qed

theorem setAddress_pin26_witness:
  "sramSize (setSize 8192 power_on) \<le> 8192
   \<and> PORTC (setAddress 0x0123 (setSize 8192 power_on)) = 0x21
   \<and> sramSize (setSize 32768 power_on) > 8192
   \<and> PORTC (setAddress 0x4123 (setSize 32768 power_on)) = 0x41"
  using setAddress_pin26 [of "0x0123" "setSize 8192 power_on"]
    setAddress_pin26 [of "0x4123" "setSize 32768 power_on"]
  by (simp add: setSize_fields)

section \<open>The MODE command and the size it accepts\<close>

lemma configurePins_fields:
  "sramSize (configurePins s) = sramSize s"
  "maxAddress (configurePins s) = maxAddress s"
  "addressBits (configurePins s) = addressBits s"
  "uart (configurePins s) = uart s"
  "decode (configurePins s) = decode s"
  "serial (configurePins s) = serial s"
  "rng (configurePins s) = rng s"
  "bus_log (configurePins s) = bus_log s"
  "PORTG (configurePins s) = PORTG s OR 13"
  by (simp_all add: op_defs sram_latch_fields)

lemma toInt_1000: "toInt ''1000'' = 1000"
  by (simp add: toInt_def isspace_def isdigit_def)

lemma trim_1000: "trim (substring ''SRAM 1000'' 5) = ''1000''"
  by (simp add: trim_def substring_def isspace_def)

lemma toInt_0: "toInt ''0'' = 0"
  by (simp add: toInt_def isspace_def isdigit_def)

lemma trim_0: "trim (substring ''SRAM 0'' 5) = ''0''"
  by (simp add: trim_def substring_def isspace_def)

lemma String_of_nat_1000: "String_of_nat 1000 = ''1000''"
  by simp

lemmas fw_defs = handleModeCommand_def startsWith_def run_Nil run_Cons setStrategy_def
  uart_sendOK_def uart_sendInfo_def uart_sendError_def uart_send_def setUARTHandler_def Let_def

text \<open>
  C9.  \<open>MODE SRAM 0\<close> is refused: an error is sent, no size is stored and no mode
  becomes active.  \<open>MODE SRAM 1000\<close>, a size that is not a power of two, is accepted: the
  size is stored, the SRAM mode becomes active and an OK line is sent.
\<close>

theorem mode_sram_size_check:
  "currentMode (handleModeCommand ''SRAM 0'' firmware_start) = NONE
   \<and> sramSize (sramStrategy (handleModeCommand ''SRAM 0'' firmware_start)) = 0
   \<and> serial (sramStrategy (handleModeCommand ''SRAM 0'' firmware_start))
       = [SendError ''Invalid SRAM size'', SendInfo ''Valid sizes: 8192 (8KB), 32768 (32KB)'']
   \<and> currentMode (handleModeCommand ''SRAM 1000'' firmware_start) = SRAM62256
   \<and> currentStrategy (handleModeCommand ''SRAM 1000'' firmware_start) = Some SramStrategy
   \<and> sramSize (sramStrategy (handleModeCommand ''SRAM 1000'' firmware_start)) = 1000
   \<and> serial (sramStrategy (handleModeCommand ''SRAM 1000'' firmware_start))
       = [SendOK ''SRAM mode set: 1000 bytes'']"
  by (simp add: fw_defs trim_1000 toInt_1000 trim_0 toInt_0 String_of_nat_1000
      configurePins_fields setSize_fields firmware_start_def power_on_fields)


section \<open>QUICK and FULL coverage\<close>

lemma nat_and_pred_pow2:
  fixes n :: nat
  shows "0 < n \<Longrightarrow> (n AND (n - 1) = 0) \<longleftrightarrow> (\<exists>k. n = 2 ^ k)"
proof (induction n rule: less_induct)
  case (less n)
  show ?case
  proof (cases "even n")
    case True
    then obtain m where m: "n = 2 * m" by (auto elim: evenE)
    with less.prems have mpos: "0 < m" by simp
    have pred: "(n - 1) div 2 = m - 1" using m mpos by (cases m) simp_all
    have "n AND (n - 1) = 2 * (m AND (m - 1))"
      using m mpos pred by (subst and_rec) simp
    then have "(n AND (n - 1) = 0) \<longleftrightarrow> (m AND (m - 1) = 0)" by simp
    also have "\<dots> \<longleftrightarrow> (\<exists>k. m = 2 ^ k)"
      using less.IH [of m] m mpos by simp
    also have "\<dots> \<longleftrightarrow> (\<exists>k. n = 2 ^ k)"
    proof
      assume "\<exists>k. m = 2 ^ k"
      then obtain k where "m = 2 ^ k" ..
      then have "n = 2 ^ Suc k" using m by simp
      then show "\<exists>k. n = 2 ^ k" ..
    next
      assume "\<exists>k. n = 2 ^ k"
      then obtain k where k: "n = 2 ^ k" ..
      with True have "k \<noteq> 0" by (cases k) simp_all
      then obtain j where "k = Suc j" by (cases k) simp_all
      with k m have "m = 2 ^ j" by simp
      then show "\<exists>k. m = 2 ^ k" ..
    qed
    finally show ?thesis .
  next
    case False
    then obtain m where m: "n = 2 * m + 1" by (auto elim: oddE)
    have "n AND (n - 1) = 2 * m"
      using m by (subst and_rec) simp
    then have "(n AND (n - 1) = 0) \<longleftrightarrow> m = 0" by simp
    also have "\<dots> \<longleftrightarrow> (\<exists>k. n = 2 ^ k)"
    proof
      assume "m = 0"
      then have "n = 2 ^ 0" using m by simp
      then show "\<exists>k. n = 2 ^ k" ..
    next
      assume "\<exists>k. n = 2 ^ k"
      then obtain k where k: "n = 2 ^ k" ..
      with False have "k = 0" by (cases k) simp_all
      with k m show "m = 0" by simp
    qed
    finally show ?thesis .
  qed
qed

lemma word_and_pred_pow2:
  fixes a :: u16
  assumes "a \<noteq> 0"
  shows "(a AND (a - 1) = 0) \<longleftrightarrow> (\<exists>k. unat a = 2 ^ k)"
proof -
  have pos: "0 < unat a" using assms by (simp add: unat_gt_0)
  have "unat (a - 1) = unat a - 1" using assms by (simp add: unat_minus_one)
  then have "unat (a AND (a - 1)) = unat a AND (unat a - 1)"
    by (simp add: unsigned_and_eq)
  moreover have "(a AND (a - 1) = 0) \<longleftrightarrow> unat (a AND (a - 1)) = 0"
    by (simp add: unat_eq_0)
  ultimately show ?thesis using nat_and_pred_pow2 [OF pos] by simp
qed

lemma word_and_7F:
  fixes a :: u16
  shows "(a AND 0x7F = 0) \<longleftrightarrow> unat a mod 128 = 0"
proof -
  have "(0x7F :: u16) = mask 7" by (simp add: mask_eq_exp_minus_1)
  then have "a AND 0x7F = take_bit 7 a" by (simp only: take_bit_eq_mask)
  then have "unat (a AND 0x7F) = unat a mod 2 ^ 7"
    by (simp add: take_bit_eq_mod unat_mod)
  moreover have "(a AND 0x7F = 0) \<longleftrightarrow> unat (a AND 0x7F) = 0"
    by (simp add: unat_eq_0)
  ultimately show ?thesis by simp
qed


lemma last_512_nat:
  fixes a m :: u16
  assumes "a \<le> m" "\<not> a < 512"
  shows "(m - 512 < a) \<longleftrightarrow> unat m < unat a + 512"
proof -
  have "512 \<le> unat a" using assms(2) by (simp add: word_less_nat_alt)
  moreover have "unat a \<le> unat m" using assms(1) by (simp add: word_le_nat_alt)
  ultimately have "unat (m - 512) = unat m - 512"
    by (simp add: unat_sub word_le_nat_alt)
  then show ?thesis
    using \<open>512 \<le> unat a\<close> \<open>unat a \<le> unat m\<close> by (simp add: word_less_nat_alt) arith
qed

lemma shouldTestAddress_quick:
  assumes "sramSize s \<noteq> 0" "maxAddress s = sramSize s - 1" "addr \<le> maxAddress s"
  shows "shouldTestAddress s addr False \<longleftrightarrow>
           unat addr < 512 \<or> unat (sramSize s) \<le> unat addr + 512
           \<or> (\<exists>k. unat addr = 2 ^ k) \<or> unat addr mod 128 = 0"
proof (cases "addr < 512")
  case True
  then show ?thesis by (simp add: shouldTestAddress_def word_less_nat_alt)
next
  case False
  then have nz: "addr \<noteq> 0" by auto
  have m: "unat (maxAddress s) = unat (sramSize s) - 1"
    using assms(1,2) by (simp add: unat_minus_one)
  have pos: "0 < unat (sramSize s)" using assms(1) by (simp add: unat_gt_0)
  have "(maxAddress s - 512 < addr) \<longleftrightarrow> unat (sramSize s) \<le> unat addr + 512"
    using last_512_nat [OF assms(3) False] m pos by arith
  with False show ?thesis
    by (simp add: shouldTestAddress_def word_and_pred_pow2 [OF nz] word_and_7F word_less_nat_alt)
qed


lemma in_range_nat:
  assumes "sramSize s \<noteq> 0" "maxAddress s = sramSize s - 1"
  shows "addr \<le> maxAddress s \<longleftrightarrow> unat addr < unat (sramSize s)"
proof -
  have "unat (maxAddress s) = unat (sramSize s) - 1"
    using assms by (simp add: unat_minus_one)
  moreover have "0 < unat (sramSize s)" using assms(1) by (simp add: unat_gt_0)
  ultimately show ?thesis by (simp add: word_le_nat_alt) arith
qed

lemma exhaustive_all:
  assumes "sramSize s \<noteq> 0" "maxAddress s = sramSize s - 1"
  shows "exhaustive s = {addr. unat addr < unat (sramSize s)}"
  using in_range_nat [OF assms] by (simp add: exhaustive_def shouldTestAddress_def)

lemma sampled_subset: "sampled s \<subseteq> exhaustive s"
  by (auto simp add: sampled_def exhaustive_def shouldTestAddress_def)

lemma sampled_strict_iff:
  assumes "sramSize s \<noteq> 0" "maxAddress s = sramSize s - 1"
  shows "sampled s \<subset> exhaustive s \<longleftrightarrow> 1026 \<le> unat (sramSize s)"
proof
  assume strict: "sampled s \<subset> exhaustive s"
  show "1026 \<le> unat (sramSize s)"
  proof (rule ccontr)
    assume "\<not> 1026 \<le> unat (sramSize s)"
    then have small: "unat (sramSize s) \<le> 1025" by simp
    have "exhaustive s \<subseteq> sampled s"
    proof
      fix addr assume "addr \<in> exhaustive s"
      then have le: "addr \<le> maxAddress s" by (simp add: exhaustive_def)
      have "unat addr < 512 \<or> unat addr = 512 \<or> 513 \<le> unat addr" by arith
      then have "unat addr < 512 \<or> unat (sramSize s) \<le> unat addr + 512
           \<or> (\<exists>k. unat addr = 2 ^ k) \<or> unat addr mod 128 = 0"
      proof (elim disjE)
        assume "unat addr = 512"
        then have "unat addr = 2 ^ 9" by simp
        then show ?thesis by blast
      next
        assume "513 \<le> unat addr"
        with small show ?thesis by simp
      qed simp
      then have "shouldTestAddress s addr False"
        using shouldTestAddress_quick [OF assms le] by simp
      with le show "addr \<in> sampled s" by (simp add: sampled_def)
    qed
    with strict show False by auto
  qed
next
  assume big: "1026 \<le> unat (sramSize s)"
  have le: "(513 :: u16) \<le> maxAddress s"
    using in_range_nat [OF assms, of 513] big by simp
  have m: "unat (maxAddress s) = unat (sramSize s) - 1"
    using assms by (simp add: unat_minus_one)
  have "\<not> (513 :: u16) < 512" by simp
  from last_512_nat [OF le this]
  have "\<not> maxAddress s - 512 < 513"
    using m big by simp
  then have "\<not> shouldTestAddress s 513 False"
    by (simp add: shouldTestAddress_def)
  then have "513 \<notin> sampled s" by (simp add: sampled_def)
  moreover have "513 \<in> exhaustive s"
    using le by (simp add: exhaustive_def shouldTestAddress_def)
  ultimately show "sampled s \<subset> exhaustive s"
    using sampled_subset [of s] by auto
qed

text \<open>
  C3.  For a configured size (not 0, \<open>maxAddress = sramSize - 1\<close>), QUICK mode visits an
  address of the device exactly when it is among the first 512, among the last 512, a
  power of two or a multiple of 128; the choice depends on \<open>maxAddress\<close> only; FULL
  mode visits every address below the size; the QUICK addresses are among the FULL
  ones, and they are fewer exactly when the size is at least 1026.
\<close>

theorem quick_coverage:
  assumes "sramSize s \<noteq> 0" and "maxAddress s = sramSize s - 1"
  shows "(\<forall>addr. addr \<le> maxAddress s \<longrightarrow>
            (shouldTestAddress s addr False \<longleftrightarrow>
               unat addr < 512 \<or> unat (sramSize s) \<le> unat addr + 512
               \<or> (\<exists>k. unat addr = 2 ^ k) \<or> unat addr mod 128 = 0))
       \<and> (\<forall>s' :: 'g tester. maxAddress s' = maxAddress s \<longrightarrow> sampled s' = sampled s)
       \<and> exhaustive s = {addr. unat addr < unat (sramSize s)}
       \<and> sampled s \<subseteq> exhaustive s
       \<and> (sampled s \<subset> exhaustive s \<longleftrightarrow> 1026 \<le> unat (sramSize s))"
  using shouldTestAddress_quick [OF assms] exhaustive_all [OF assms] sampled_subset [of s]
    sampled_strict_iff [OF assms]
  by (simp add: sampled_def shouldTestAddress_def)

theorem quick_coverage_witness:
  "sramSize (setSize 8192 power_on) \<noteq> 0
   \<and> maxAddress (setSize 8192 power_on) = sramSize (setSize 8192 power_on) - 1
   \<and> sampled (setSize 8192 power_on) \<subset> exhaustive (setSize 8192 power_on)"
proof -
  have a: "sramSize (setSize 8192 power_on) \<noteq> 0"
    by (simp add: setSize_fields)
  have b: "maxAddress (setSize 8192 power_on) = sramSize (setSize 8192 power_on) - 1"
    by (simp add: setSize_fields)
  from quick_coverage [OF a b]
  have "sampled (setSize 8192 power_on) \<subset> exhaustive (setSize 8192 power_on)
          \<longleftrightarrow> 1026 \<le> unat (sramSize (setSize 8192 power_on))"
    by blast
  then have "sampled (setSize 8192 power_on) \<subset> exhaustive (setSize 8192 power_on)"
    by (simp add: setSize_fields)
  with a b show ?thesis by blast
qed

text \<open>With 8 addresses QUICK mode visits all of them, as FULL mode does.\<close>

theorem quick_coverage_not_strict:
  "\<not> sampled (setSize 8 power_on) \<subset> exhaustive (setSize 8 power_on)"
  using sampled_strict_iff [of "setSize 8 power_on"]
  by (simp add: setSize_fields)

section \<open>Loops as lists of rounds\<close>




lemma unat_succ_u8: "(b :: u8) < n \<Longrightarrow> unat (b + 1) = Suc (unat b)"
proof -
  assume "b < n"
  then have "b \<noteq> - 1" by (metis word_order.extremum_strict)
  then have "1 + b \<noteq> 0" by (metis add.commute add_eq_0_iff)
  then show ?thesis using unatSuc [of b] by (simp add: add.commute)
qed

lemma for_bit_from:
  assumes pres: "\<And>b t. bound (snd (body b t)) = bound t"
  shows "bound s = n \<Longrightarrow>
     for_bit bound body b s = Some (list_loop body (map word_of_nat [unat b ..< unat n]) s)"
proof (induction "unat n - unat b" arbitrary: b s)
  case 0
  then have "\<not> b < bound s" by (simp add: word_less_nat_alt)
  moreover have e: "[unat b ..< unat n] = []" using 0 by simp
  ultimately show ?case unfolding e by (subst for_bit.simps) simp
next
  case (Suc k)
  then have less: "b < n" by (auto simp add: word_less_nat_alt)
  then have upt: "[unat b ..< unat n] = unat b # [Suc (unat b) ..< unat n]"
    by (simp add: word_less_nat_alt upt_conv_Cons)
  have succ: "unat (b + 1) = Suc (unat b)" by (rule unat_succ_u8 [OF less])
  obtain c s' where body: "body b s = (c, s')" by (cases "body b s")
  have s': "bound s' = n" using pres [of b s] body Suc.prems by simp
  have "k = unat n - unat (b + 1)" using Suc.hyps(2) succ by simp
  from Suc.hyps(1) [OF this s']
  have "for_bit bound body (b + 1) s'
          = Some (list_loop body (map word_of_nat [Suc (unat b) ..< unat n]) s')"
    by (simp add: succ)
  then show ?case
    using less body Suc.prems by (subst for_bit.simps) (simp add: upt)
qed

lemma for_bit_list:
  assumes "\<And>b t. bound (snd (body b t)) = bound t"
  shows "for_bit bound body 0 s
           = Some (list_loop body (map word_of_nat [0 ..< unat (bound s)]) s)"
  using for_bit_from [where bound = bound and body = body and n = "bound s" and s = s and b = 0,
      OF assms refl]
  by simp


lemma send_fields:
  "uart (sendTestError n a e x s) = uart s"
  "uart (sendTestResult n b s) = uart s"
  "uart (sendTestStart n f s) = uart s"
  "uart (sendProgress l a m s) = uart s"
  "maxAddress (sendProgress l a m s) = maxAddress s"
  by (simp_all add: sendTestError_def sendTestResult_def sendTestStart_def sendProgress_def Let_def)

lemma cycle_fields:
  "sramSize (writeByte a d s) = sramSize s"
  "maxAddress (writeByte a d s) = maxAddress s"
  "addressBits (writeByte a d s) = addressBits s"
  "uart (writeByte a d s) = uart s"
  "decode (writeByte a d s) = decode s"
  "serial (writeByte a d s) = serial s"
  "rng (writeByte a d s) = rng s"
  "sramSize (snd (readByte a s)) = sramSize s"
  "maxAddress (snd (readByte a s)) = maxAddress s"
  "addressBits (snd (readByte a s)) = addressBits s"
  "uart (snd (readByte a s)) = uart s"
  "decode (snd (readByte a s)) = decode s"
  "serial (snd (readByte a s)) = serial s"
  "rng (snd (readByte a s)) = rng s"
  by (simp_all add: op_defs sram_latch_fields)

lemmas round_defs = skip_untested_def write_round_def verify_round_def write_read_round_def
  progress_at_def no_report_def const_gen_def random_gen_def line_hint_def


lemma testWalkingOnesAddress_shape:
  "testWalkingOnesAddress fullTest s0 =
     and_then
       (for_bit addressBits
          (write_read_round 2 (\<lambda>b. push_bit (unat b) 1) (\<lambda>b. 0xAA)
             (line_hint AddressLineHint) no_report)
          0 (sendTestStart 2 fullTest s0))
       (\<lambda>s1. Some (True, sendTestResult 2 True s1))"
  unfolding testWalkingOnesAddress_def round_defs
  by (simp add: Let_def split_def cycle_fields send_fields if_distribR cong: if_cong)



section \<open>What every test keeps and reports\<close>

lemma results_append: "results (xs @ ys) = results xs @ results ys"
  by (induction xs rule: results.induct) simp_all

lemma same_setup_refl: "same_setup s s"
  by (simp add: same_setup_def)

lemma same_setup_trans: "same_setup s t \<Longrightarrow> same_setup t u \<Longrightarrow> same_setup s u"
  by (simp add: same_setup_def)


lemma quiet_no_report: "quiet no_report"
  unfolding quiet_def by (intro allI exI [of _ "[]"]) (simp add: no_report_def)

lemma quiet_line_hint_addr: "quiet (line_hint AddressLineHint)"
  unfolding quiet_def
proof (intro allI)
  fix i and t :: "'a tester"
  show "\<exists>ms. line_hint AddressLineHint i t = t\<lparr>serial := serial t @ ms\<rparr> \<and> results ms = []"
    by (cases "uart t")
       (auto simp add: line_hint_def uart_send_def intro: exI [of _ "[AddressLineHint i]"] exI [of _ "[]"])
qed


lemma quiet_fields:
  assumes "quiet rep"
  shows "sramSize (rep i t) = sramSize t" "maxAddress (rep i t) = maxAddress t"
    "addressBits (rep i t) = addressBits t" "uart (rep i t) = uart t"
    "decode (rep i t) = decode t" "results (serial (rep i t)) = results (serial t)"
    "PORTG (rep i t) = PORTG t" "cells (rep i t) = cells t" "rng (rep i t) = rng t"
    "bus_log (rep i t) = bus_log t" "DDRL (rep i t) = DDRL t"
proof -
  from assms obtain ms where "rep i t = t\<lparr>serial := serial t @ ms\<rparr>" "results ms = []"
    unfolding quiet_def by blast
  then show "sramSize (rep i t) = sramSize t" "maxAddress (rep i t) = maxAddress t"
    "addressBits (rep i t) = addressBits t" "uart (rep i t) = uart t"
    "decode (rep i t) = decode t" "results (serial (rep i t)) = results (serial t)"
    "PORTG (rep i t) = PORTG t" "cells (rep i t) = cells t" "rng (rep i t) = rng t"
    "bus_log (rep i t) = bus_log t" "DDRL (rep i t) = DDRL t"
    by (simp_all add: results_append)
qed

lemma send_results:
  "results (serial (sendTestStart n f s)) = results (serial s)"
  "results (serial (sendTestError n a e x s)) = results (serial s)"
  "results (serial (sendTestResult n b s)) = results (serial s) @ (if uart s then [(n, b)] else [])"
  by (simp_all add: sendTestStart_def sendTestError_def sendTestResult_def results_append)

lemma send_more:
  "sramSize (sendTestError n a e x s) = sramSize s"
  "maxAddress (sendTestError n a e x s) = maxAddress s"
  "addressBits (sendTestError n a e x s) = addressBits s"
  "decode (sendTestError n a e x s) = decode s"
  "sramSize (sendTestResult n b s) = sramSize s"
  "maxAddress (sendTestResult n b s) = maxAddress s"
  "addressBits (sendTestResult n b s) = addressBits s"
  "decode (sendTestResult n b s) = decode s"
  by (simp_all add: sendTestError_def sendTestResult_def)


lemma cycle_setup:
  "same_setup s (writeByte a d s)"
  "same_setup s (snd (readByte a s))"
  by (simp_all add: same_setup_def cycle_fields)

lemma quiet_setup: "quiet rep \<Longrightarrow> same_setup t (rep i t)"
  by (simp add: same_setup_def quiet_fields)




lemma write_read_round_ok:
  "quiet rep \<Longrightarrow> quiet hint \<Longrightarrow> round_ok n s (write_read_round n ao vo hint rep i s)"
  by (simp add: round_ok_def write_read_round_def split_def Let_def same_setup_def
      quiet_fields cycle_fields send_results send_fields send_more results_append)






























section \<open>The catalogue runs every test\<close>













section \<open>Bus cycles on a tester at rest\<close>

lemma bit_int_8192: "bit (8192::int) n \<longleftrightarrow> n = 13"
proof -
  have "(8192::int) = 2 ^ 13" by simp
  then show ?thesis by (simp only: bit_exp_iff) auto
qed

lemma bit_int_32: "bit (32::int) n \<longleftrightarrow> n = 5"
proof -
  have "(32::int) = 2 ^ 5" by simp
  then show ?thesis by (simp only: bit_exp_iff) auto
qed

lemma lines_forced:
  "word_cat (ucast (drop_bit 8 a AND 0xFF :: u16) OR push_bit 5 1 :: u8)
     (ucast (a AND 0xFF :: u16) :: u8) = (a OR 0x2000 :: u16)"
  unfolding xFF16
  by (rule bit_eqI) (auto simp add: bit_simps bit_int_8192 bit_int_32)

lemma lines_plain:
  "word_cat (ucast (drop_bit 8 a AND 0xFF :: u16) :: u8) (ucast (a AND 0xFF :: u16) :: u8)
     = (a :: u16)"
  unfolding xFF16
  by (rule bit_eqI) (auto simp add: bit_simps)

lemma word_cat_driven:
  "word_cat (highByte_of s a) (ucast (a AND 0xFF :: u16) :: u8) = driven s a"
  by (simp add: highByte_of_def driven_def lines_forced lines_plain Let_def del: push_bit_of_1)



lemma portg_write_bits:
  "bit p 0 \<Longrightarrow> bit p 3 \<Longrightarrow>
   ((p AND NOT (push_bit 0 1)) AND NOT (push_bit 3 1) OR push_bit 3 1) OR push_bit 0 1 = (p :: u8)"
  by (rule bit_eqI) (auto simp add: bit_simps simp del: push_bit_of_1)

lemma portg_restore_write: "bit p 0 \<Longrightarrow> bit p 3 \<Longrightarrow> ((p AND - 2) AND - 9 OR 8) OR 1 = (p :: u8)"
  using portg_write_bits [of p] by simp

lemma portg_read_bits:
  "bit p 0 \<Longrightarrow> bit p 2 \<Longrightarrow>
   ((p AND NOT (push_bit 0 1)) AND NOT (push_bit 2 1) OR push_bit 2 1) OR push_bit 0 1 = (p :: u8)"
  by (rule bit_eqI) (auto simp add: bit_simps simp del: push_bit_of_1)

lemma portg_restore_read: "bit p 0 \<Longrightarrow> bit p 2 \<Longrightarrow> ((p AND - 2) AND - 5 OR 4) OR 1 = (p :: u8)"
  using portg_read_bits [of p] by simp

lemma u8_and_255: "(d :: u8) AND 255 = d"
proof -
  have "(255 :: u8) = - 1" by simp
  then show ?thesis by (simp only: and.right_neutral word_bw_comms bit.conj_one_right)
qed

lemma u8_and_m256: "(x :: u8) AND - 256 = 0"
proof -
  have "(- 256 :: u8) = 0" by simp
  then show ?thesis by (simp only: and_zero_eq)
qed

lemma setAddress_idle:
  "idle s \<Longrightarrow> setAddress a s = s\<lparr>PORTA := ucast (a AND 0xFF), PORTC := highByte_of s a\<rparr>"
  by (simp add: setAddress_def setAddress_steps_def run_Nil run_Cons sram_latch_def idle_def
      highByte_of_def)

lemma writeByte_idle:
  "idle s \<Longrightarrow> writeByte a d s =
     s\<lparr>PORTA := ucast (a AND 0xFF), PORTC := highByte_of s a, DDRL := 0, PORTL := d,
       cells := (cells s)(cell_of s a := d), bus_log := bus_log s @ [Write a d]\<rparr>"
  apply (simp add: writeByte_def writeByte_steps_def run_Nil run_Cons setAddress_idle Let_def)
  apply (simp add: sram_latch_def idle_def delayMicroseconds_def bit_simps address_lines_def
      selected_cell_def cell_of_def
      data_lines_def word_cat_driven portg_restore_write u8_and_255 u8_and_m256)
  done

lemma readByte_idle:
  "idle s \<Longrightarrow> readByte a s =
     (cells s (cell_of s a),
      s\<lparr>PORTA := ucast (a AND 0xFF), PORTC := highByte_of s a, DDRL := 0,
        bus_log := bus_log s @ [Read a (cells s (cell_of s a))]\<rparr>)"
  apply (simp add: readByte_def readByte_select_def readByte_release_def run_Nil run_Cons
      setAddress_idle Let_def)
  apply (simp add: sram_latch_def idle_def delayMicroseconds_def bit_simps address_lines_def
      selected_cell_def cell_of_def
      PINL_def data_lines_def sram_drives_def word_cat_driven portg_restore_read)
  done

lemma write_at_rest:
  assumes "idle s"
  shows "idle (writeByte a d s)" "PORTG (writeByte a d s) = PORTG s"
    "cells (writeByte a d s) = (cells s)(cell_of s a := d)"
    "bus_log (writeByte a d s) = bus_log s @ [Write a d]"
  using assms by (simp_all add: writeByte_idle idle_def)

lemma read_at_rest:
  assumes "idle s"
  shows "fst (readByte a s) = cells s (cell_of s a)"
    "idle (snd (readByte a s))" "PORTG (snd (readByte a s)) = PORTG s"
    "cells (snd (readByte a s)) = cells s"
    "bus_log (snd (readByte a s)) = bus_log s @ [Read a (cells s (cell_of s a))]"
  using assms by (simp_all add: readByte_idle idle_def)

lemma cell_of_cong:
  "sramSize t = sramSize s \<Longrightarrow> decode t = decode s \<Longrightarrow> cell_of t = cell_of s"
  by (simp add: cell_of_def driven_def fun_eq_iff)


section \<open>Loops on a tester at rest\<close>




lemma at_rest_after_trans:
  "at_rest_after s l1 t \<Longrightarrow> at_rest_after t l2 u \<Longrightarrow> at_rest_after s (l1 @ l2) u"
  by (auto simp add: at_rest_after_def intro: same_setup_trans)

lemma write_read_loop:
  assumes "quiet rep"
  shows "idle s \<Longrightarrow>
     fst (list_loop (write_read_round n ao vo hint rep) is s)
     \<and> at_rest_after s (concat (map (\<lambda>i. [Write (ao i) (vo i), Read (ao i) (vo i)]) is))
          (snd (list_loop (write_read_round n ao vo hint rep) is s))
     \<and> rng (snd (list_loop (write_read_round n ao vo hint rep) is s)) = rng s"
proof (induction "is" arbitrary: s)
  case Nil
  then show ?case by (simp add: at_rest_after_def same_setup_refl)
next
  case (Cons i "is")
  let ?w = "writeByte (ao i) (vo i) s"
  let ?r = "readByte (ao i) ?w"
  let ?t = "rep i (snd ?r)"
  have w: "idle ?w" using Cons.prems by (rule write_at_rest)
  have same_cell: "cell_of ?w = cell_of s"
    by (rule cell_of_cong) (simp_all add: cycle_fields)
  have val: "fst ?r = vo i"
    using read_at_rest(1) [OF w] write_at_rest(3) [OF Cons.prems] same_cell by simp
  have round: "write_read_round n ao vo hint rep i s = (True, ?t)"
    using val by (simp add: write_read_round_def split_def Let_def)
  have t: "idle ?t"
    using read_at_rest(3) [OF w] write_at_rest(2) [OF Cons.prems] Cons.prems
    by (simp add: idle_def quiet_fields [OF assms])
  have first: "at_rest_after s [Write (ao i) (vo i), Read (ao i) (vo i)] ?t"
    using t read_at_rest(5) [OF w] write_at_rest(4) [OF Cons.prems] val
      read_at_rest(1) [OF w]
    by (simp add: at_rest_after_def same_setup_def quiet_fields [OF assms] cycle_fields)
  have rng: "rng ?t = rng s"
    by (simp add: quiet_fields [OF assms] cycle_fields)
  from Cons.IH [OF t] at_rest_after_trans [OF first] rng round
  show ?case by simp
qed










section \<open>The cells of the tested addresses\<close>








section \<open>Phases of a test on a tester at rest\<close>






lemma and_then_Some: "and_then (Some (ok, s)) k = (if ok then k s else Some (False, s))"
  by (simp add: and_then_def)


lemma write_read_bits:
  assumes "idle s" "quiet rep" "quiet hint"
    and "\<And>t t'. same_setup t t' \<Longrightarrow> bound t' = bound t"
  shows "\<exists>s'. and_then (for_bit bound (write_read_round n ao vo hint rep) 0 s) k = k s'
     \<and> at_rest_after s
          (concat (map (\<lambda>b. [Write (ao b) (vo b), Read (ao b) (vo b)])
             (map word_of_nat [0 ..< unat (bound s)]))) s'"
proof -
  let ?bits = "map word_of_nat [0 ..< unat (bound s)] :: u8 list"
  let ?LL = "list_loop (write_read_round n ao vo hint rep) ?bits s"
  have "\<And>b t. bound (snd (write_read_round n ao vo hint rep b t)) = bound t"
    using write_read_round_ok [OF assms(2,3)] by (simp add: round_ok_def assms(4))
  then have "for_bit bound (write_read_round n ao vo hint rep) 0 s = Some ?LL"
    by (rule for_bit_list)
  moreover have "fst ?LL" using write_read_loop [OF assms(2,1)] by simp
  ultimately have "and_then (for_bit bound (write_read_round n ao vo hint rep) 0 s) k
      = k (snd ?LL)"
    by (simp add: and_then_def split_def)
  then show ?thesis using write_read_loop [OF assms(2,1), of n ao vo hint ?bits] by blast
qed



section \<open>The tests on a tester at rest\<close>

lemma start_at_rest: "idle s \<Longrightarrow> at_rest_after s [] (sendTestStart n f s)"
  by (simp add: at_rest_after_def same_setup_def idle_def sendTestStart_def results_append)

lemma finish_at_rest:
  "idle s \<Longrightarrow> bus_log (sendTestResult n b s) = bus_log s"
  by (simp add: sendTestResult_def)





lemma rest_log: "at_rest_after s log t \<Longrightarrow> bus_log t = bus_log s @ log"
  by (simp add: at_rest_after_def)

lemma rest_results: "at_rest_after s log t \<Longrightarrow> results (serial t) = results (serial s)"
  by (simp add: at_rest_after_def)

lemma rest_uart: "at_rest_after s log t \<Longrightarrow> uart t = uart s"
  by (simp add: at_rest_after_def same_setup_def)

lemma rest_idle: "at_rest_after s log t \<Longrightarrow> idle t"
  by (simp add: at_rest_after_def)



lemma finished:
  assumes "at_rest_after s log t"
  shows "bus_log (sendTestResult n True t) = bus_log s @ log"
    "results (serial (sendTestResult n True t))
       = results (serial s) @ (if uart s then [(n, True)] else [])"
  using assms
  by (simp_all add: at_rest_after_def same_setup_def sendTestResult_def results_append)



lemma bits_list:
  "map (\<lambda>i :: u8. F (unat i)) (map word_of_nat [0 ..< unat (n :: u8)]) = map F [0 ..< unat n]"
proof -
  have "unat (word_of_nat k :: u8) = k" if "k < unat n" for k
  proof -
    have "unat n < 256" using unsigned_less [of n] by simp
    with that show ?thesis by (simp add: unat_of_nat)
  qed
  then show ?thesis by (simp add: comp_def)
qed

lemma walking_address_run:
  assumes "idle s"
  shows "\<exists>s'. testWalkingOnesAddress f s = Some (True, s')
     \<and> bus_log s' = bus_log s
          @ concat (map (\<lambda>b. [Write (push_bit b 1) 0xAA, Read (push_bit b 1) 0xAA])
              [0 ..< unat (addressBits s)])
     \<and> results (serial s') = results (serial s) @ (if uart s then [(2, True)] else [])"
proof -
  let ?s0 = "sendTestStart 2 f s"
  let ?k = "\<lambda>s1. Some (True, sendTestResult 2 True s1)"
  have r0: "at_rest_after s [] ?s0" using assms by (rule start_at_rest)
  have i0: "idle ?s0" using r0 by (rule rest_idle)
  have "\<exists>s'. and_then
           (for_bit addressBits
              (write_read_round 2 (\<lambda>b. push_bit (unat b) 1) (\<lambda>b. 0xAA)
                 (line_hint AddressLineHint) no_report) 0 ?s0) ?k = ?k s'
     \<and> at_rest_after ?s0
          (concat (map (\<lambda>b :: u8. [Write (push_bit (unat b) 1) 0xAA, Read (push_bit (unat b) 1) 0xAA])
             (map word_of_nat [0 ..< unat (addressBits ?s0)]))) s'"
    using write_read_bits [where bound = addressBits and k = ?k and n = 2
        and ao = "\<lambda>b. push_bit (unat b) 1" and vo = "\<lambda>b. 0xAA",
        OF i0 quiet_no_report quiet_line_hint_addr]
    by (simp add: same_setup_def)
  then obtain s1 where e1: "testWalkingOnesAddress f s = ?k s1"
    and r1: "at_rest_after ?s0
               (concat (map (\<lambda>b :: u8. [Write (push_bit (unat b) 1) 0xAA, Read (push_bit (unat b) 1) 0xAA])
                  (map word_of_nat [0 ..< unat (addressBits ?s0)]))) s1"
    unfolding testWalkingOnesAddress_shape by blast
  have bits: "addressBits ?s0 = addressBits s" by (simp add: sendTestStart_def)
  have eq: "map (\<lambda>b :: u8. [Write (push_bit (unat b) 1) 0xAA, Read (push_bit (unat b) 1) 0xAA])
          (map word_of_nat [0 ..< unat (addressBits s)])
        = map (\<lambda>b. [Write (push_bit b 1) 0xAA, Read (push_bit b 1) 0xAA])
            [0 ..< unat (addressBits s)]"
    by (rule bits_list)
  have "at_rest_after s
          ([] @ concat (map (\<lambda>b :: u8. [Write (push_bit (unat b) 1) 0xAA, Read (push_bit (unat b) 1) 0xAA])
             (map word_of_nat [0 ..< unat (addressBits ?s0)]))) s1"
    using r0 r1 by (rule at_rest_after_trans)
  then have "at_rest_after s
          (concat (map (\<lambda>b. [Write (push_bit b 1) 0xAA, Read (push_bit b 1) 0xAA])
              [0 ..< unat (addressBits s)])) s1"
    by (simp only: bits eq append_Nil)
  from finished [OF this, of 2] e1 show ?thesis by simp
qed





section \<open>A device of 8 bytes\<close>










lemma minstd_reseed: "randomSeed minstd 12345 g = randomSeed minstd 12345 g'"
  by (simp add: minstd_def)


section \<open>A 62256, and one with a stuck address line\<close>

lemma toInt_32768: "toInt ''32768'' = 32768"
  by (simp add: toInt_def isspace_def isdigit_def)

lemma trim_32768: "trim (substring ''SRAM 32768'' 5) = ''32768''"
  by (simp add: trim_def substring_def isspace_def)

lemma count_bits_32767: "count_bits 32767 0 = 15"
  by code_simp

lemma sram62256_fields:
  "sramSize sram62256 = 32768" "maxAddress sram62256 = 32767" "addressBits sram62256 = 15"
  "uart sram62256 = True" "decode sram62256 = (\<lambda>a. a AND 0x7FFF)" "PORTG sram62256 = 13"
  "bus_log sram62256 = []"
  by (simp_all add: sram62256_def fw_defs trim_32768 toInt_32768 configurePins_fields
      setSize_fields firmware_start_def power_on_fields count_bits_32767)

lemma a7_stuck_low_fields:
  "sramSize a7_stuck_low = 32768" "maxAddress a7_stuck_low = 32767"
  "addressBits a7_stuck_low = 15" "uart a7_stuck_low = True"
  "decode a7_stuck_low = (\<lambda>a. a AND 0x7F7F)" "PORTG a7_stuck_low = 13"
  "bus_log a7_stuck_low = []"
  by (simp_all add: a7_stuck_low_def sram62256_fields)


lemma sram62256_idle: "idle sram62256"
  by (simp add: idle_def sram62256_fields)



lemma a7_stuck_low_idle: "idle a7_stuck_low"
  by (simp add: idle_def a7_stuck_low_fields)

lemma a7_stuck_low_alias: "cell_of a7_stuck_low 0x80 = cell_of a7_stuck_low 0"
  by (simp add: cell_of_def driven_def a7_stuck_low_fields)


section \<open>Test 1: basic read/write\<close>




section \<open>Test 2: walking ones on the address lines\<close>

text \<open>
  C5.  Test 2 cannot fail.  On every tester at rest, whatever cell the decoder of the
  device selects for an address, it passes and reports the outcome true, and the bus
  cycles it performs are: for every bit position \<open>b\<close> below \<open>addressBits\<close>, in
  ascending order, a write of the constant 0xAA to address \<open>1 << b\<close> followed at once
  by a read of that address.  Each read returns the byte just written through the same
  address, also when a stuck or shorted address line makes two addresses select the
  same cell, so the branch that reports a possible issue with an address line is
  never taken.
\<close>

theorem walking_ones_address_never_fails:
  assumes "idle s"
  shows "\<exists>s'. testWalkingOnesAddress f s = Some (True, s')
     \<and> bus_log s' = bus_log s
          @ concat (map (\<lambda>b. [Write (push_bit b 1) 0xAA, Read (push_bit b 1) 0xAA])
              [0 ..< unat (addressBits s)])
     \<and> results (serial s') = results (serial s) @ (if uart s then [(2, True)] else [])"
  using walking_address_run [OF assms, of f] .

text \<open>
  The 62256 whose address line A7 is stuck low: the addresses 0x80 and 0 select the
  same cell, the device is not fault-free, and test 2 passes.
\<close>

theorem walking_ones_address_never_fails_witness:
  "idle a7_stuck_low
   \<and> cell_of a7_stuck_low 0x80 = cell_of a7_stuck_low 0
   \<and> \<not> fault_free a7_stuck_low
   \<and> (\<exists>s'. testWalkingOnesAddress False a7_stuck_low = Some (True, s')
         \<and> bus_log s'
             = concat (map (\<lambda>a. [Write a 0xAA, Read a 0xAA])
                 [0x0001, 0x0002, 0x0004, 0x0008, 0x0010, 0x0020, 0x0040, 0x0080,
                  0x0100, 0x0200, 0x0400, 0x0800, 0x1000, 0x2000, 0x4000])
         \<and> results (serial s') = results (serial a7_stuck_low) @ [(2, True)])"
proof -
  have "(word_of_nat 128 :: u16) \<in> set (addresses a7_stuck_low)"
    and "(word_of_nat 0 :: u16) \<in> set (addresses a7_stuck_low)"
    unfolding addresses_def set_map by (rule imageI, simp add: a7_stuck_low_fields)+
  then have in1: "0x80 \<in> set (addresses a7_stuck_low)"
    and in0: "0 \<in> set (addresses a7_stuck_low)"
    by simp_all
  have nf: "\<not> fault_free a7_stuck_low"
  proof
    assume "fault_free a7_stuck_low"
    then have "inj_on (cell_of a7_stuck_low) (set (addresses a7_stuck_low))"
      by (simp add: fault_free_def distinct_map)
    from inj_onD [OF this a7_stuck_low_alias in1 in0] show False by simp
  qed
  from walking_ones_address_never_fails [OF a7_stuck_low_idle, of False]
  have run: "\<exists>s'. testWalkingOnesAddress False a7_stuck_low = Some (True, s')
         \<and> bus_log s'
             = concat (map (\<lambda>a. [Write a 0xAA, Read a 0xAA])
                 [0x0001, 0x0002, 0x0004, 0x0008, 0x0010, 0x0020, 0x0040, 0x0080,
                  0x0100, 0x0200, 0x0400, 0x0800, 0x1000, 0x2000, 0x4000])
         \<and> results (serial s') = results (serial a7_stuck_low) @ [(2, True)]"
    by (simp add: a7_stuck_low_fields upt_rec)
  show ?thesis
    using a7_stuck_low_idle a7_stuck_low_alias nf run by (intro conjI)
qed

section \<open>Test 3: walking ones on the data lines\<close>




section \<open>Test 4: checkerboard\<close>




section \<open>Test 7: the pseudo-random pattern\<close>



end
